theory Spec2Isabelle
  imports Complex_Main
begin

section \<open>Data model of \<open>ternary/lines.py\<close>\<close>

text \<open>
  A ternary point is a 3-tuple of numbers. The numbers the module computes with are of
  a type \<open>'a\<close> that has the operations the code uses (\<open>0\<close>, \<open>1\<close>, \<open>+\<close>, \<open>-\<close>, \<open>*\<close>) and
  no law about them: what is proved for every \<open>'a\<close> holds of Python integers and of
  floats alike, rounding included. A Cartesian point is the pair of coordinates the
  projection returns; the module hands them on and never computes with them. A
  permutation is an optional list of positions that is only handed on to the projection.
\<close>

type_synonym 'a ternary = "'a \<times> 'a \<times> 'a"
type_synonym cartesian = "real \<times> real"
type_synonym permutation = "nat list"

text \<open>
  \<open>helpers.project_point\<close> is imported by the module and not defined in it: every
  function below takes it as the parameter \<open>project_point\<close>.
\<close>

type_synonym 'a projection = "'a ternary \<Rightarrow> permutation option \<Rightarrow> cartesian"

text \<open>
  Keyword arguments are a dict from option name to value. The keys are the names of
  \<open>Line2D\<close> properties (\<open>linewidth\<close>, \<open>linestyle\<close>, \<open>color\<close>, ...); a key that names a
  positional parameter of the callee is outside the model.
\<close>

datatype style_value = Num real | Str string

type_synonym kwargs = "string \<rightharpoonup> style_value"

text \<open>
  \<open>Line2D((pp1[0], pp2[0]), (pp1[1], pp2[1]), **kwargs)\<close>: the two x coordinates, the
  two y coordinates and the keyword arguments it was built with.
\<close>

record Line2D =
  xdata :: "real \<times> real"
  ydata :: "real \<times> real"
  props :: kwargs

definition start_point :: "Line2D \<Rightarrow> cartesian" where
  "start_point l = (fst (xdata l), fst (ydata l))"

definition end_point :: "Line2D \<Rightarrow> cartesian" where
  "end_point l = (snd (xdata l), snd (ydata l))"

text \<open>
  The drawing surface \<open>ax\<close> is the sequence of lines added to it so far;
  \<open>ax.add_line\<close> appends one.
\<close>

type_synonym axes = "Line2D list"

definition add_line :: "axes \<Rightarrow> Line2D \<Rightarrow> axes" where
  "add_line ax l = ax @ [l]"

text \<open>
  What a call hands back: \<open>PyNone\<close> when the function ends without a \<open>return\<close>
  statement, \<open>PyAx\<close> for \<open>return ax\<close>, the surface object that was passed in.
\<close>

datatype retval = PyNone | PyAx

datatype error = ValueError | ZeroDivisionError | AttributeError

text \<open>
  \<open>numpy.arange\<close> is imported from a library outside the module, and what it returns
  for floats depends on their rounding: \<open>gridlines\<close> and \<open>ticks\<close> take it as the
  parameter \<open>arange\<close>, a function of \<open>start\<close>, \<open>stop\<close> and \<open>step\<close> that returns an array
  or raises.
\<close>

type_synonym 'a numpy_arange = "'a \<Rightarrow> 'a \<Rightarrow> 'a \<Rightarrow> error + 'a list"

section \<open>Lines\<close>

definition line ::
  "'a projection \<Rightarrow> axes \<Rightarrow> 'a ternary \<Rightarrow> 'a ternary \<Rightarrow> permutation option \<Rightarrow> kwargs
     \<Rightarrow> retval \<times> axes" where
  "line project_point ax p1 p2 permutation kwargs =
     (let pp1 = project_point p1 permutation;
          pp2 = project_point p2 permutation
      in (PyNone,
          add_line ax \<lparr>xdata = (fst pp1, fst pp2), ydata = (snd pp1, snd pp2),
                       props = kwargs\<rparr>))"

text \<open>
  The docstring of \<open>line\<close> allows \<open>None\<close> for \<open>ax\<close>. The call \<open>line(ax, ...)\<close> for \<open>ax\<close> a
  surface or \<open>None\<close>: on \<open>None\<close> the attribute \<open>add_line\<close> does not exist and the call
  raises.
\<close>

definition line_on ::
  "'a projection \<Rightarrow> axes option \<Rightarrow> 'a ternary \<Rightarrow> 'a ternary \<Rightarrow> permutation option
     \<Rightarrow> kwargs \<Rightarrow> (error + retval) \<times> axes option" where
  "line_on project_point ax p1 p2 permutation kwargs =
     (case ax of
        None \<Rightarrow> (Inl AttributeError, None)
      | Some a \<Rightarrow>
          (Inr (fst (line project_point a p1 p2 permutation kwargs)),
           Some (snd (line project_point a p1 p2 permutation kwargs))))"

definition horizontal_line ::
  "'a::{zero,minus} projection \<Rightarrow> axes \<Rightarrow> 'a \<Rightarrow> 'a \<Rightarrow> kwargs \<Rightarrow> retval \<times> axes" where
  "horizontal_line project_point ax scale i kwargs =
     (let p1 = (0, scale - i, i);
          p2 = (scale - i, 0, i)
      in (PyNone, snd (line project_point ax p1 p2 None kwargs)))"

definition left_parallel_line ::
  "'a::{zero,minus} projection \<Rightarrow> axes \<Rightarrow> 'a \<Rightarrow> 'a \<Rightarrow> kwargs \<Rightarrow> retval \<times> axes" where
  "left_parallel_line project_point ax scale i kwargs =
     (let p1 = (0, i, scale - i);
          p2 = (scale - i, i, 0)
      in (PyNone, snd (line project_point ax p1 p2 None kwargs)))"

definition right_parallel_line ::
  "'a::{zero,minus} projection \<Rightarrow> axes \<Rightarrow> 'a \<Rightarrow> 'a \<Rightarrow> kwargs \<Rightarrow> retval \<times> axes" where
  "right_parallel_line project_point ax scale i kwargs =
     (let p1 = (i, scale - i, 0);
          p2 = (i, 0, scale - i)
      in (PyNone, snd (line project_point ax p1 p2 None kwargs)))"

section \<open>Boundary\<close>

definition boundary ::
  "'a::{zero,minus} projection \<Rightarrow> axes \<Rightarrow> 'a \<Rightarrow> kwargs \<Rightarrow> retval \<times> axes" where
  "boundary project_point ax scale kwargs =
     (let ax1 = snd (horizontal_line project_point ax scale 0 kwargs);
          ax2 = snd (left_parallel_line project_point ax1 scale 0 kwargs);
          ax3 = snd (right_parallel_line project_point ax2 scale 0 kwargs)
      in (PyAx, ax3))"

text \<open>The three corners of the simplex of a given scale.\<close>

definition vertices :: "'a::zero \<Rightarrow> 'a ternary set" where
  "vertices scale = {(0, scale, 0), (scale, 0, 0), (0, 0, scale)}"

section \<open>Merging dicts\<close>

text \<open>
  \<open>not d\<close> for an argument that is \<open>None\<close> or a dict: true for \<open>None\<close> and for the
  empty dict.
\<close>

definition py_not :: "('k \<rightharpoonup> 'v) option \<Rightarrow> bool" where
  "py_not d = (case d of None \<Rightarrow> True | Some m \<Rightarrow> m = Map.empty)"

text \<open>
  The value \<open>merge_dicts\<close> returns, as a function of the contents of its arguments:
  \<open>z = base.copy(); z.update(updates)\<close>.
\<close>

definition merge_dicts ::
  "('k \<rightharpoonup> 'v) option \<Rightarrow> ('k \<rightharpoonup> 'v) option \<Rightarrow> ('k \<rightharpoonup> 'v)" where
  "merge_dicts base updates =
     (let base = (if py_not base then Map.empty else the base);
          updates = (if py_not updates then Map.empty else the updates);
          z = base
      in z ++ updates)"

text \<open>
  The same function over an explicit store of dict objects, to speak about its
  arguments after the call. A reference is an index into the store; \<open>dict()\<close> and
  \<open>copy\<close> allocate a new object at the end of it, \<open>update\<close> overwrites the object it is
  called on.
\<close>

type_synonym ('k, 'v) store = "('k \<rightharpoonup> 'v) list"
type_synonym ref = nat

definition new_dict :: "('k, 'v) store \<Rightarrow> ('k \<rightharpoonup> 'v) \<Rightarrow> ('k, 'v) store \<times> ref" where
  "new_dict h d = (h @ [d], length h)"

definition dict_update :: "('k, 'v) store \<Rightarrow> ref \<Rightarrow> ref \<Rightarrow> ('k, 'v) store" where
  "dict_update h z u = h[z := (h ! z) ++ (h ! u)]"

definition ref_not :: "('k, 'v) store \<Rightarrow> ref option \<Rightarrow> bool" where
  "ref_not h r = (case r of None \<Rightarrow> True | Some a \<Rightarrow> h ! a = Map.empty)"

definition merge_dicts_store ::
  "('k, 'v) store \<Rightarrow> ref option \<Rightarrow> ref option \<Rightarrow> ('k, 'v) store \<times> ref" where
  "merge_dicts_store h base updates =
     (let (h1, base) = (if ref_not h base then new_dict h Map.empty else (h, the base));
          (h2, updates) =
             (if ref_not h1 updates then new_dict h1 Map.empty else (h1, the updates));
          (h3, z) = new_dict h2 (h2 ! base);
          h4 = dict_update h3 z updates
      in (h4, z))"

section \<open>Gridlines\<close>





section \<open>Ticks\<close>

text \<open>\<open>str.lower\<close> on a byte string: the letters A to Z move to a to z.\<close>

definition lower_char :: "char \<Rightarrow> char" where
  "lower_char c =
     (let n = (of_char c :: nat)
      in if 65 \<le> n \<and> n \<le> 90 then char_of (n + 32) else c)"

definition lower :: "string \<Rightarrow> string" where
  "lower s = map lower_char s"

text \<open>The three \<open>for\<close> loops of \<open>ticks\<close>, one for each side.\<close>

fun right_ticks ::
  "'a::{zero,plus,minus,times,uminus} projection \<Rightarrow> axes \<Rightarrow> 'a \<Rightarrow> 'a \<Rightarrow> bool \<Rightarrow> 'a list
     \<Rightarrow> kwargs \<Rightarrow> axes" where
  "right_ticks project_point ax scale offset clockwise [] kwargs = ax"
| "right_ticks project_point ax scale offset clockwise (i # is) kwargs =
     (let loc1 = (scale - i, i, 0);
          loc2 = (if clockwise then (scale - i, i + offset * scale, 0)
                  else (scale - i + offset * scale, i, 0))
      in right_ticks project_point (snd (line project_point ax loc1 loc2 None kwargs))
           scale offset clockwise is kwargs)"

fun left_ticks ::
  "'a::{zero,plus,minus,times,uminus} projection \<Rightarrow> axes \<Rightarrow> 'a \<Rightarrow> 'a \<Rightarrow> bool \<Rightarrow> 'a list
     \<Rightarrow> kwargs \<Rightarrow> axes" where
  "left_ticks project_point ax scale offset clockwise [] kwargs = ax"
| "left_ticks project_point ax scale offset clockwise (i # is) kwargs =
     (let loc1 = (0, i, 0);
          loc2 = (if clockwise then (- offset * scale, i, 0)
                  else (- offset * scale, i + offset * scale, 0))
      in left_ticks project_point (snd (line project_point ax loc1 loc2 None kwargs))
           scale offset clockwise is kwargs)"

fun bottom_ticks ::
  "'a::{zero,plus,minus,times,uminus} projection \<Rightarrow> axes \<Rightarrow> 'a \<Rightarrow> 'a \<Rightarrow> bool \<Rightarrow> 'a list
     \<Rightarrow> kwargs \<Rightarrow> axes" where
  "bottom_ticks project_point ax scale offset clockwise [] kwargs = ax"
| "bottom_ticks project_point ax scale offset clockwise (i # is) kwargs =
     (let loc1 = (i, 0, 0);
          loc2 = (if clockwise then (i + offset * scale, - offset * scale, 0)
                  else (i, - offset * scale, 0))
      in bottom_ticks project_point (snd (line project_point ax loc1 loc2 None kwargs))
           scale offset clockwise is kwargs)"

text \<open>
  What the arguments \<open>ticks\<close> and \<open>locations\<close> can be: \<open>None\<close>, a Python list, or a numpy
  array, which is what \<open>ticks\<close> itself assigns to both when it computes the default.
\<close>

datatype 'a ticks_value = NoneTicks | ListTicks "'a list" | ArrayTicks "'a list"

text \<open>
  \<open>not ticks\<close>: true for \<open>None\<close> and for an empty list or array; an array of one
  element has the truth value of the element; on an array of more than one element numpy
  raises \<open>ValueError\<close>.
\<close>

definition not_ticks :: "'a::zero ticks_value \<Rightarrow> error + bool" where
  "not_ticks t =
     (case t of
        NoneTicks \<Rightarrow> Inr True
      | ListTicks xs \<Rightarrow> Inr (xs = [])
      | ArrayTicks xs \<Rightarrow>
          (case xs of
             [] \<Rightarrow> Inr True
           | [x] \<Rightarrow> Inr (x = 0)
           | _ \<Rightarrow> Inl ValueError))"

text \<open>
  \<open>ticks\<close> ends without a \<open>return\<close>; its parameter \<open>ticks\<close> is \<open>ticks_arg\<close> here,
  the name being taken by the function. A raise leaves the surface as it is at that
  moment, so the surface is part of the result in every case.
\<close>

definition ticks ::
  "'a::{zero,plus,minus,times,uminus} projection \<Rightarrow> 'a numpy_arange \<Rightarrow> axes \<Rightarrow> 'a
     \<Rightarrow> 'a ticks_value \<Rightarrow> 'a ticks_value \<Rightarrow> 'a \<Rightarrow> string \<Rightarrow> 'a \<Rightarrow> bool \<Rightarrow> kwargs
     \<Rightarrow> (error + retval) \<times> axes" where
  "ticks project_point arange ax scale ticks_arg locations multiple axis offset clockwise
       kwargs =
     (let axis = lower axis;
          valid_axis_chars = {CHR ''l'', CHR ''r'', CHR ''b''};
          axis_chars = set axis
      in if \<not> axis_chars \<subseteq> valid_axis_chars then (Inl ValueError, ax)
         else
           case (case not_ticks ticks_arg of
                   Inl e \<Rightarrow> Inl e
                 | Inr True \<Rightarrow>
                     (case arange 0 scale multiple of
                        Inl e \<Rightarrow> Inl e
                      | Inr locations \<Rightarrow> Inr (ArrayTicks locations, ArrayTicks locations))
                 | Inr False \<Rightarrow> Inr (ticks_arg, locations)) of
             Inl e \<Rightarrow> (Inl e, ax)
           | Inr (ticks_arg, locations) \<Rightarrow>
               (case (if CHR ''r'' \<in> set axis
                      then (case arange 0 (scale + multiple) multiple of
                              Inl e \<Rightarrow> Inl e
                            | Inr is \<Rightarrow>
                                Inr (right_ticks project_point ax scale offset clockwise
                                       is kwargs))
                      else Inr ax) of
                  Inl e \<Rightarrow> (Inl e, ax)
                | Inr ax1 \<Rightarrow>
                    (case (if CHR ''l'' \<in> set axis
                           then (case arange 0 (scale + multiple) multiple of
                                   Inl e \<Rightarrow> Inl e
                                 | Inr is \<Rightarrow>
                                     Inr (left_ticks project_point ax1 scale offset
                                            clockwise is kwargs))
                           else Inr ax1) of
                       Inl e \<Rightarrow> (Inl e, ax1)
                     | Inr ax2 \<Rightarrow>
                         (case (if CHR ''b'' \<in> set axis
                                then (case arange 0 (scale + multiple) multiple of
                                        Inl e \<Rightarrow> Inl e
                                      | Inr is \<Rightarrow>
                                          Inr (bottom_ticks project_point ax2 scale
                                                 offset clockwise is kwargs))
                                else Inr ax2) of
                            Inl e \<Rightarrow> (Inl e, ax2)
                          | Inr ax3 \<Rightarrow> (Inr PyNone, ax3)))))"

section \<open>\<open>numpy.arange\<close> on Python integers\<close>

text \<open>
  For Python integers \<open>arange(start, stop, step)\<close> is exact: the integers
  \<open>start + k * step\<close> for \<open>0 \<le> k < ceil((stop - start) / step)\<close>, none when that bound
  is not positive. A zero step raises; the exception differs between numpy versions and
  is the parameter \<open>zero_step\<close>. The examples below run the functions on integers with
  this \<open>arange\<close>.
\<close>

definition arange_int :: "error \<Rightarrow> int numpy_arange" where
  "arange_int zero_step start stop step =
     (if step = 0 then Inl zero_step
      else Inr (map (\<lambda>k. start + int k * step)
                  [0 ..< nat \<lceil>real_of_int (stop - start) / real_of_int step\<rceil>]))"

section \<open>Vocabulary of the properties\<close>

text \<open>
  The line that joins the projections of two ternary points, carrying the given keyword
  arguments.
\<close>

definition segment ::
  "'a projection \<Rightarrow> 'a ternary \<Rightarrow> 'a ternary \<Rightarrow> permutation option \<Rightarrow> kwargs \<Rightarrow> Line2D" where
  "segment project_point p1 p2 permutation kwargs =
     \<lparr>xdata = (fst (project_point p1 permutation), fst (project_point p2 permutation)),
      ydata = (snd (project_point p1 permutation), snd (project_point p2 permutation)),
      props = kwargs\<rparr>"

section \<open>Example inputs\<close>

text \<open>
  A store with \<open>{"a": 1}\<close> at reference 0 and \<open>{"a": 2, "b": 3}\<close> at reference 1.
\<close>

definition example_store :: "(string, int) store" where
  "example_store = [[''a'' \<mapsto> 1], [''a'' \<mapsto> 2, ''b'' \<mapsto> 3]]"

text \<open>
  A projection to run the functions with, on integer points: the first two components
  of the point, whatever the permutation.
\<close>

definition example_projection :: "int projection" where
  "example_projection p permutation = (real_of_int (fst p), real_of_int (fst (snd p)))"


section \<open>The functions in closed form\<close>

lemma start_point_segment: "start_point (segment pr p1 p2 perm kw) = pr p1 perm"
  by (simp add: start_point_def segment_def)

lemma end_point_segment: "end_point (segment pr p1 p2 perm kw) = pr p2 perm"
  by (simp add: end_point_def segment_def)

lemma props_segment: "props (segment pr p1 p2 perm kw) = kw"
  by (simp add: segment_def)

lemma line_eq: "line pr ax p1 p2 perm kw = (PyNone, ax @ [segment pr p1 p2 perm kw])"
  by (simp add: line_def add_line_def segment_def Let_def)

lemma horizontal_line_eq:
  "horizontal_line pr ax scale i kw =
     (PyNone, ax @ [segment pr (0, scale - i, i) (scale - i, 0, i) None kw])"
  by (simp add: horizontal_line_def line_eq Let_def)

lemma left_parallel_line_eq:
  "left_parallel_line pr ax scale i kw =
     (PyNone, ax @ [segment pr (0, i, scale - i) (scale - i, i, 0) None kw])"
  by (simp add: left_parallel_line_def line_eq Let_def)

lemma right_parallel_line_eq:
  "right_parallel_line pr ax scale i kw =
     (PyNone, ax @ [segment pr (i, scale - i, 0) (i, 0, scale - i) None kw])"
  by (simp add: right_parallel_line_def line_eq Let_def)



lemma right_ticks_eq:
  "right_ticks pr ax scale offset cw js kw =
     ax @ map (\<lambda>i. segment pr (scale - i, i, 0)
                      (if cw then (scale - i, i + offset * scale, 0)
                       else (scale - i + offset * scale, i, 0)) None kw) js"
  by (induction js arbitrary: ax) (simp_all add: line_eq Let_def)

lemma left_ticks_eq:
  "left_ticks pr ax scale offset cw js kw =
     ax @ map (\<lambda>i. segment pr (0, i, 0)
                      (if cw then (- offset * scale, i, 0)
                       else (- offset * scale, i + offset * scale, 0)) None kw) js"
  by (induction js arbitrary: ax) (simp_all add: line_eq Let_def)

lemma bottom_ticks_eq:
  "bottom_ticks pr ax scale offset cw js kw =
     ax @ map (\<lambda>i. segment pr (i, 0, 0)
                      (if cw then (i + offset * scale, - offset * scale, 0)
                       else (i, - offset * scale, 0)) None kw) js"
  by (induction js arbitrary: ax) (simp_all add: line_eq Let_def)






lemma arange_int_10_by_5: "arange_int e 0 10 5 = Inr [0, 5]"
  by (simp add: arange_int_def upt_rec)

lemma arange_int_15_by_5: "arange_int e 0 15 5 = Inr [0, 5, 10]"
  by (simp add: arange_int_def upt_rec)


text \<open>
  \<open>ticks\<close>: a selector with a wrong character raises at once; whenever \<open>ticks\<close> raises,
  nothing has been drawn, every call of \<open>arange\<close> in the loops having the same
  arguments; when it returns, the surface holds the ticks of the selected sides.
\<close>

lemma ticks_bad_selector:
  "\<not> set (lower axis) \<subseteq> {CHR ''l'', CHR ''r'', CHR ''b''} \<Longrightarrow>
   ticks pr arange ax scale t locs m axis offset cw kw = (Inl ValueError, ax)"
  by (simp add: ticks_def Let_def)

lemma ticks_error_surface:
  "fst (ticks pr arange ax scale t locs m axis offset cw kw) = Inl e \<Longrightarrow>
   snd (ticks pr arange ax scale t locs m axis offset cw kw) = ax"
  by (cases "arange 0 (scale + m) m")
     (auto simp: ticks_def Let_def split: sum.splits if_splits prod.splits bool.splits)

lemma ticks_returns:
  "fst (ticks pr arange ax scale t locs m axis offset cw kw) = Inr r \<Longrightarrow>
   r = PyNone \<and>
   snd (ticks pr arange ax scale t locs m axis offset cw kw) =
     (case arange 0 (scale + m) m of
        Inl e \<Rightarrow> ax
      | Inr js \<Rightarrow>
          ax
          @ (if CHR ''r'' \<in> set (lower axis)
             then map (\<lambda>i. segment pr (scale - i, i, 0)
                        (if cw then (scale - i, i + offset * scale, 0)
                         else (scale - i + offset * scale, i, 0)) None kw) js
             else [])
          @ (if CHR ''l'' \<in> set (lower axis)
             then map (\<lambda>i. segment pr (0, i, 0)
                        (if cw then (- offset * scale, i, 0)
                         else (- offset * scale, i + offset * scale, 0)) None kw) js
             else [])
          @ (if CHR ''b'' \<in> set (lower axis)
             then map (\<lambda>i. segment pr (i, 0, 0)
                        (if cw then (i + offset * scale, - offset * scale, 0)
                         else (i, - offset * scale, 0)) None kw) js
             else []))"
  by (cases "arange 0 (scale + m) m")
     (auto simp: ticks_def Let_def right_ticks_eq left_ticks_eq bottom_ticks_eq
        split: sum.splits if_splits prod.splits bool.splits)

lemma lower_char_idem: "lower_char (lower_char c) = lower_char c"
  by (simp add: lower_char_def Let_def)

section \<open>\<open>line\<close> and the three parallel lines\<close>

text \<open>
  Claim C4. For all points \<open>p1\<close>, \<open>p2\<close> and every permutation, absent or not,
  \<open>line\<close> adds exactly one line to the surface; it starts at the projection of \<open>p1\<close>
  and ends at the projection of \<open>p2\<close>, both under that permutation, and carries the
  keyword arguments of the call.
\<close>

theorem line_one_segment:
  "\<exists>l. snd (line project_point ax p1 p2 permutation kwargs) = ax @ [l]
       \<and> start_point l = project_point p1 permutation
       \<and> end_point l = project_point p2 permutation
       \<and> props l = kwargs"
  by (simp add: line_eq start_point_segment end_point_segment props_segment)

text \<open>
  Claim C5. For every scale and index \<open>i\<close>, \<open>horizontal_line\<close> calls \<open>line\<close> with
  the points \<open>(0, scale - i, i)\<close> and \<open>(scale - i, 0, i)\<close>, \<open>left_parallel_line\<close> with
  \<open>(0, i, scale - i)\<close> and \<open>(scale - i, i, 0)\<close>, \<open>right_parallel_line\<close> with
  \<open>(i, scale - i, 0)\<close> and \<open>(i, 0, scale - i)\<close>, in this order and with no permutation.
\<close>

theorem parallel_lines_endpoints:
  "horizontal_line project_point ax scale i kwargs =
     (PyNone, snd (line project_point ax (0, scale - i, i) (scale - i, 0, i) None kwargs))
   \<and> left_parallel_line project_point ax scale i kwargs =
     (PyNone, snd (line project_point ax (0, i, scale - i) (scale - i, i, 0) None kwargs))
   \<and> right_parallel_line project_point ax scale i kwargs =
     (PyNone, snd (line project_point ax (i, scale - i, 0) (i, 0, scale - i) None kwargs))"
  by (simp add: horizontal_line_def left_parallel_line_def right_parallel_line_def Let_def)

text \<open>
  Claim C8, as the specification states it, says that \<open>line\<close> returns the surface. The
  function has no \<open>return\<close> statement: already for the points \<open>(0, 0, 0)\<close> and
  \<open>(1, 0, 0)\<close> on an empty surface the value of the call is not the surface.
\<close>

theorem line_returns_surface_counterexample:
  "fst (line example_projection [] (0, 0, 0) (1, 0, 0) None Map.empty) \<noteq> PyAx"
  by (simp add: line_def Let_def)

text \<open>
  Claim C8, amended. For every input on which \<open>line\<close> succeeds, it returns \<open>None\<close>: the
  line it adds is seen on the surface that was passed in, which is not handed back.
\<close>

theorem line_returns_none:
  "fst (line_on project_point ax p1 p2 permutation kwargs) = Inr r \<Longrightarrow> r = PyNone"
  by (cases ax) (auto simp: line_on_def line_def Let_def)

text \<open>
  Claim C8, amended, at a call that succeeds: an empty surface and the points
  \<open>(0, 0, 0)\<close> and \<open>(1, 0, 0)\<close>.
\<close>

theorem line_returns_none_witness:
  "fst (line_on example_projection (Some []) (0, 0, 0) (1, 0, 0) None Map.empty) = Inr PyNone"
proof -
  have s: "fst (line_on example_projection (Some []) (0, 0, 0) (1, 0, 0) None Map.empty)
             = Inr (fst (line example_projection [] (0, 0, 0) (1, 0, 0) None Map.empty))"
    by (simp add: line_on_def)
  from s line_returns_none [OF s] show ?thesis by simp
qed

section \<open>\<open>boundary\<close>\<close>

text \<open>
  Claim C6. For every scale, \<open>boundary\<close> calls \<open>horizontal_line\<close>,
  \<open>left_parallel_line\<close> and \<open>right_parallel_line\<close> once each, with index 0, and returns
  the surface. It adds exactly three lines, and the ternary end points of each of them
  are corners of the simplex: \<open>(0, scale, 0)\<close>, \<open>(scale, 0, 0)\<close> and \<open>(0, 0, scale)\<close>.
\<close>

theorem boundary_three_segments:
  fixes scale :: real
  shows "boundary project_point ax scale kwargs =
     (PyAx,
      snd (right_parallel_line project_point
            (snd (left_parallel_line project_point
                   (snd (horizontal_line project_point ax scale 0 kwargs)) scale 0 kwargs))
            scale 0 kwargs))
   \<and> snd (boundary project_point ax scale kwargs) =
       ax @ [segment project_point (0, scale, 0) (scale, 0, 0) None kwargs,
             segment project_point (0, 0, scale) (scale, 0, 0) None kwargs,
             segment project_point (0, scale, 0) (0, 0, scale) None kwargs]
   \<and> {(0, scale, 0), (scale, 0, 0), (0, 0, scale)} = vertices scale"
proof -
  have "boundary project_point ax scale kwargs =
     (PyAx,
      snd (right_parallel_line project_point
            (snd (left_parallel_line project_point
                   (snd (horizontal_line project_point ax scale 0 kwargs)) scale 0 kwargs))
            scale 0 kwargs))"
    by (simp add: boundary_def Let_def)
  moreover have "snd (boundary project_point ax scale kwargs) =
       ax @ [segment project_point (0, scale, 0) (scale, 0, 0) None kwargs,
             segment project_point (0, 0, scale) (scale, 0, 0) None kwargs,
             segment project_point (0, scale, 0) (0, 0, scale) None kwargs]"
    by (simp add: boundary_def Let_def horizontal_line_eq left_parallel_line_eq
        right_parallel_line_eq)
  moreover have "{(0, scale, 0), (scale, 0, 0), (0, 0, scale)} = vertices scale"
    by (simp add: vertices_def)
  ultimately show ?thesis by blast
qed

section \<open>\<open>merge_dicts\<close>\<close>

text \<open>
  Claim C7. \<open>merge_dicts\<close> (the specification's \<open>merge_style\<close>) returns the contents of
  \<open>base\<close>, or the empty dict when \<open>base\<close> is absent, with every key of \<open>updates\<close>
  overwritten by the value \<open>updates\<close> gives it, \<open>updates\<close> counting as empty when
  absent. Merging \<open>{"a": 1}\<close> with \<open>{"a": 2, "b": 3}\<close> gives \<open>{"a": 2, "b": 3}\<close>, and
  merging \<open>None\<close> with \<open>None\<close> gives \<open>{}\<close>.
\<close>

theorem merge_dicts_override:
  "merge_dicts base updates =
     (case base of None \<Rightarrow> Map.empty | Some b \<Rightarrow> b)
       ++ (case updates of None \<Rightarrow> Map.empty | Some u \<Rightarrow> u)
   \<and> merge_dicts (Some [''a'' \<mapsto> 1 :: int]) (Some [''a'' \<mapsto> 2, ''b'' \<mapsto> 3])
       = [''a'' \<mapsto> 2, ''b'' \<mapsto> 3]
   \<and> merge_dicts None None = (Map.empty :: string \<rightharpoonup> int)"
  by (simp add: merge_dicts_def py_not_def split: option.splits)

text \<open>
  Claim C9. \<open>merge_dicts\<close> does not change its arguments. In a store where \<open>base\<close> and
  \<open>updates\<close> are \<open>None\<close> or refer to dicts, every dict that was there before the call
  is the same after it, the dict returned is a new object, and it holds the merged
  contents.
\<close>

theorem merge_dicts_store_frame:
  assumes "case base of None \<Rightarrow> True | Some a \<Rightarrow> a < length h"
      and "case updates of None \<Rightarrow> True | Some a \<Rightarrow> a < length h"
  shows "take (length h) (fst (merge_dicts_store h base updates)) = h
       \<and> length h \<le> snd (merge_dicts_store h base updates)
       \<and> snd (merge_dicts_store h base updates)
           < length (fst (merge_dicts_store h base updates))
       \<and> fst (merge_dicts_store h base updates) ! snd (merge_dicts_store h base updates)
           = merge_dicts (map_option ((!) h) base) (map_option ((!) h) updates)"
  using assms
  by (cases base; cases updates)
     (simp_all add: merge_dicts_store_def new_dict_def dict_update_def ref_not_def
        merge_dicts_def py_not_def Let_def nth_append)

text \<open>
  Claim C9 at the example store, merging the dict at reference 0 with the one at
  reference 1: both are still there, and the result is a new object.
\<close>

theorem merge_dicts_store_frame_witness:
  "(case Some (0 :: nat) of None \<Rightarrow> True | Some a \<Rightarrow> a < length example_store)
   \<and> (case Some (1 :: nat) of None \<Rightarrow> True | Some a \<Rightarrow> a < length example_store)
   \<and> take (length example_store) (fst (merge_dicts_store example_store (Some 0) (Some 1)))
       = example_store
   \<and> length example_store \<le> snd (merge_dicts_store example_store (Some 0) (Some 1))
   \<and> snd (merge_dicts_store example_store (Some 0) (Some 1))
       < length (fst (merge_dicts_store example_store (Some 0) (Some 1)))
   \<and> fst (merge_dicts_store example_store (Some 0) (Some 1))
         ! snd (merge_dicts_store example_store (Some 0) (Some 1))
       = merge_dicts (map_option ((!) example_store) (Some 0))
           (map_option ((!) example_store) (Some 1))"
proof -
  have b: "case Some (0 :: nat) of None \<Rightarrow> True | Some a \<Rightarrow> a < length example_store"
    by (simp add: example_store_def)
  have u: "case Some (1 :: nat) of None \<Rightarrow> True | Some a \<Rightarrow> a < length example_store"
    by (simp add: example_store_def)
  from b u merge_dicts_store_frame [OF b u] show ?thesis
    by blast
qed

section \<open>\<open>gridlines\<close>\<close>




section \<open>\<open>ticks\<close>\<close>

text \<open>
  Claim C2, as the specification states it, has \<open>ticks\<close> raise \<open>ValueError\<close> only for a
  wrong axis string. With the valid string \<open>b\<close> and an array of two tick labels the test
  \<open>not ticks\<close> raises \<open>ValueError\<close>.
\<close>

theorem ticks_value_error_counterexample:
  "set (lower ''b'') \<subseteq> {CHR ''l'', CHR ''r'', CHR ''b''}
   \<and> ticks example_projection (arange_int ZeroDivisionError) [] 10 (ArrayTicks [0, 5])
         NoneTicks 5 ''b'' 1 False Map.empty
       = (Inl ValueError, [])"
  by (simp add: ticks_def Let_def not_ticks_def lower_def lower_char_def)

text \<open>
  Claim C2, amended. \<open>ticks\<close> raises \<open>ValueError\<close> whenever the lowercased axis string
  has a character other than \<open>l\<close>, \<open>r\<close> and \<open>b\<close>; when it raises \<open>ValueError\<close>, the
  surface is as it was before the call; the call with the lowercased string does what
  the call with the string itself does; and with any string of the three characters,
  the empty one included, \<open>ticks\<close> returns whenever \<open>not ticks\<close> does not raise and both
  calls of \<open>arange\<close> return.
\<close>

theorem ticks_value_error:
  "((\<exists>c \<in> set (lower axis). c \<notin> {CHR ''l'', CHR ''r'', CHR ''b''})
      \<longrightarrow> fst (ticks project_point arange ax scale ticks_arg locations multiple axis offset
                 clockwise kwargs) = Inl ValueError)
   \<and> (fst (ticks project_point arange ax scale ticks_arg locations multiple axis offset
              clockwise kwargs) = Inl ValueError
       \<longrightarrow> snd (ticks project_point arange ax scale ticks_arg locations multiple axis offset
                  clockwise kwargs) = ax)
   \<and> ticks project_point arange ax scale ticks_arg locations multiple (lower axis) offset
         clockwise kwargs
       = ticks project_point arange ax scale ticks_arg locations multiple axis offset clockwise
           kwargs
   \<and> (set (lower axis) \<subseteq> {CHR ''l'', CHR ''r'', CHR ''b''}
        \<and> (\<exists>b. not_ticks ticks_arg = Inr b)
        \<and> (\<exists>xs. arange 0 scale multiple = Inr xs)
        \<and> (\<exists>ys. arange 0 (scale + multiple) multiple = Inr ys)
       \<longrightarrow> fst (ticks project_point arange ax scale ticks_arg locations multiple axis offset
                  clockwise kwargs) = Inr PyNone)"
proof -
  have idem: "lower (lower axis) = lower axis"
    by (simp add: lower_def lower_char_idem)
  have 1: "(\<exists>c \<in> set (lower axis). c \<notin> {CHR ''l'', CHR ''r'', CHR ''b''})
      \<longrightarrow> fst (ticks project_point arange ax scale ticks_arg locations multiple axis offset
                 clockwise kwargs) = Inl ValueError"
  proof
    assume "\<exists>c \<in> set (lower axis). c \<notin> {CHR ''l'', CHR ''r'', CHR ''b''}"
    then have "\<not> set (lower axis) \<subseteq> {CHR ''l'', CHR ''r'', CHR ''b''}"
      by blast
    then show "fst (ticks project_point arange ax scale ticks_arg locations multiple axis offset
                 clockwise kwargs) = Inl ValueError"
      by (simp add: ticks_bad_selector)
  qed
  have 2: "fst (ticks project_point arange ax scale ticks_arg locations multiple axis offset
              clockwise kwargs) = Inl ValueError
       \<longrightarrow> snd (ticks project_point arange ax scale ticks_arg locations multiple axis offset
                  clockwise kwargs) = ax"
    by (simp add: ticks_error_surface)
  have 3: "ticks project_point arange ax scale ticks_arg locations multiple (lower axis) offset
         clockwise kwargs
       = ticks project_point arange ax scale ticks_arg locations multiple axis offset clockwise
           kwargs"
    by (simp add: ticks_def idem)
  have 4: "set (lower axis) \<subseteq> {CHR ''l'', CHR ''r'', CHR ''b''}
        \<and> (\<exists>b. not_ticks ticks_arg = Inr b)
        \<and> (\<exists>xs. arange 0 scale multiple = Inr xs)
        \<and> (\<exists>ys. arange 0 (scale + multiple) multiple = Inr ys)
       \<longrightarrow> fst (ticks project_point arange ax scale ticks_arg locations multiple axis offset
                  clockwise kwargs) = Inr PyNone"
    by (auto simp: ticks_def Let_def split: bool.splits)
  from 1 2 3 4 show ?thesis by blast
qed

text \<open>
  Claim C2, amended, at the axis string \<open>x\<close>, where the call raises and draws nothing,
  and at the axis string \<open>LR\<close> on the integers 10 and 5, where it returns.
\<close>

theorem ticks_value_error_witness:
  "(\<exists>c \<in> set (lower ''x''). c \<notin> {CHR ''l'', CHR ''r'', CHR ''b''})
   \<and> fst (ticks example_projection (arange_int ZeroDivisionError) [] 10 NoneTicks NoneTicks 1
           ''x'' 1 False Map.empty) = Inl ValueError
   \<and> snd (ticks example_projection (arange_int ZeroDivisionError) [] 10 NoneTicks NoneTicks 1
           ''x'' 1 False Map.empty) = []
   \<and> set (lower ''LR'') \<subseteq> {CHR ''l'', CHR ''r'', CHR ''b''}
   \<and> not_ticks (NoneTicks :: int ticks_value) = Inr True
   \<and> arange_int ZeroDivisionError 0 10 5 = Inr [0, 5]
   \<and> arange_int ZeroDivisionError 0 (10 + 5) 5 = Inr [0, 5, 10]
   \<and> fst (ticks example_projection (arange_int ZeroDivisionError) [] 10 NoneTicks NoneTicks 5
           ''LR'' 1 False Map.empty) = Inr PyNone"
proof -
  have bad: "\<exists>c \<in> set (lower ''x''). c \<notin> {CHR ''l'', CHR ''r'', CHR ''b''}"
    by (simp add: lower_def lower_char_def)
  have good: "set (lower ''LR'') \<subseteq> {CHR ''l'', CHR ''r'', CHR ''b''}"
    by code_simp
  have nt: "not_ticks (NoneTicks :: int ticks_value) = Inr True"
    by (simp add: not_ticks_def)
  have a: "arange_int ZeroDivisionError 0 10 5 = Inr [0, 5]"
    by (rule arange_int_10_by_5)
  have b: "arange_int ZeroDivisionError 0 (10 + 5) 5 = Inr [0, 5, 10]"
    by (simp add: arange_int_15_by_5)
  from bad good nt a b
    ticks_value_error [of "''x''" example_projection "arange_int ZeroDivisionError" "[]" 10
      NoneTicks NoneTicks 1 1 False Map.empty]
    ticks_value_error [of "''LR''" example_projection "arange_int ZeroDivisionError" "[]" 10
      NoneTicks NoneTicks 5 1 False Map.empty]
  show ?thesis by blast
qed

text \<open>
  Claim C10, as the specification states it, has the lines drawn not depend on the
  argument \<open>ticks\<close>. On the integers 10 and 5 with the axis string \<open>b\<close>, the call
  without tick labels draws three ticks, and the call with an array of two tick labels
  raises at \<open>not ticks\<close> and draws none.
\<close>

theorem ticks_ignore_labels_counterexample:
  "snd (ticks example_projection (arange_int ZeroDivisionError) [] 10 NoneTicks NoneTicks 5
         ''b'' 1 False Map.empty)
     = [segment example_projection (0, 0, 0) (0, - 10, 0) None Map.empty,
        segment example_projection (5, 0, 0) (5, - 10, 0) None Map.empty,
        segment example_projection (10, 0, 0) (10, - 10, 0) None Map.empty]
   \<and> snd (ticks example_projection (arange_int ZeroDivisionError) [] 10 (ArrayTicks [0, 5])
           NoneTicks 5 ''b'' 1 False Map.empty)
     = []"
  by (simp add: ticks_def Let_def not_ticks_def lower_def lower_char_def arange_int_10_by_5
      arange_int_15_by_5 bottom_ticks_eq)

text \<open>
  Claim C10, amended. Two calls of \<open>ticks\<close> that differ only in the arguments \<open>ticks\<close>
  and \<open>locations\<close> leave the same surface whenever both return or both raise.
\<close>

theorem ticks_ignore_labels:
  assumes "isl (fst (ticks project_point arange ax scale ticks1 locations1 multiple axis offset
                       clockwise kwargs))
         = isl (fst (ticks project_point arange ax scale ticks2 locations2 multiple axis offset
                       clockwise kwargs))"
  shows "snd (ticks project_point arange ax scale ticks1 locations1 multiple axis offset
                clockwise kwargs)
       = snd (ticks project_point arange ax scale ticks2 locations2 multiple axis offset
                clockwise kwargs)"
proof (cases "fst (ticks project_point arange ax scale ticks1 locations1 multiple axis offset
                     clockwise kwargs)")
  case (Inl e1)
  with assms obtain e2 where
    "fst (ticks project_point arange ax scale ticks2 locations2 multiple axis offset
            clockwise kwargs) = Inl e2"
    by (cases "fst (ticks project_point arange ax scale ticks2 locations2 multiple axis offset
                      clockwise kwargs)") auto
  with Inl show ?thesis
    by (simp add: ticks_error_surface)
next
  case (Inr r1)
  with assms obtain r2 where
    "fst (ticks project_point arange ax scale ticks2 locations2 multiple axis offset
            clockwise kwargs) = Inr r2"
    by (cases "fst (ticks project_point arange ax scale ticks2 locations2 multiple axis offset
                      clockwise kwargs)") auto
  with Inr show ?thesis
    by (simp add: ticks_returns)
qed

text \<open>
  Claim C10, amended, at two calls that both return: one without tick labels, one with
  a list of two labels and a list of one location.
\<close>

theorem ticks_ignore_labels_witness:
  "isl (fst (ticks example_projection (arange_int ZeroDivisionError) [] 10 NoneTicks NoneTicks
               5 ''b'' 1 False Map.empty))
     = isl (fst (ticks example_projection (arange_int ZeroDivisionError) [] 10
                   (ListTicks [1, 2]) (ListTicks [3]) 5 ''b'' 1 False Map.empty))
   \<and> snd (ticks example_projection (arange_int ZeroDivisionError) [] 10 NoneTicks NoneTicks
               5 ''b'' 1 False Map.empty)
     = snd (ticks example_projection (arange_int ZeroDivisionError) [] 10
                   (ListTicks [1, 2]) (ListTicks [3]) 5 ''b'' 1 False Map.empty)"
proof -
  have s: "isl (fst (ticks example_projection (arange_int ZeroDivisionError) [] 10 NoneTicks
                      NoneTicks 5 ''b'' 1 False Map.empty))
     = isl (fst (ticks example_projection (arange_int ZeroDivisionError) [] 10
                   (ListTicks [1, 2]) (ListTicks [3]) 5 ''b'' 1 False Map.empty))"
    by (simp add: ticks_def Let_def not_ticks_def lower_def lower_char_def arange_int_10_by_5
        arange_int_15_by_5)
  from s ticks_ignore_labels [OF s] show ?thesis by blast
qed

end
